theory Spec2Isabelle
  imports Main
begin

section \<open>The configuration module \<^verbatim>\<open>tailwind.config.js\<close>\<close>

text \<open>
  The repository is one CommonJS module whose body is a single statement,
  \<^verbatim>\<open>module.exports = { ... }\<close>, assigning an object literal.  The literal is built
  from strings, arrays and nested objects only.  Values are modelled by a datatype of
  JavaScript data that also has booleans and functions (both are legal in a configuration
  of this kind, for instance \<^verbatim>\<open>darkMode: false\<close> or a plugin function), so that
  "this leaf is a string" is a statement that could fail.  An object is the list of its
  own properties in the order the literal writes them.  An object has each property name
  once; the literal writes no name twice (\<open>distinct_names\<close> below), so it denotes the
  object that lists its properties as written.
\<close>

subsection \<open>Values\<close>

datatype jsval =
    JBool bool
  | JStr string
  | JFun string
  | JArr "jsval list"
  | JObj "(string \<times> jsval) list"

text \<open>
  The object literal of lines 2 to 21 of the source, property by property:
  \<^verbatim>\<open>
  module.exports = {
    darkMode: 'class',
    content: ["./templates/**/*.html"],
    theme: {
      extend: {
        colors: {
          'custom-blue': {
            light: '#3b82f6',
            DEFAULT: '#2563eb',
            dark: '#1e40af',
          },
          'light-bg': '#ffffff',
          'light-text': '#1f2937',
          'dark-bg': '#111827',
          'dark-text': '#f9fafb',
        },
      },
    },
    plugins: [],
  }
  \<close>
\<close>

definition module_exports :: jsval where
  "module_exports =
     JObj
      [(''darkMode'', JStr ''class''),
       (''content'', JArr [JStr ''./templates/**/*.html'']),
       (''theme'',
        JObj
         [(''extend'',
           JObj
            [(''colors'',
              JObj
               [(''custom-blue'',
                 JObj
                  [(''light'', JStr ''#3b82f6''),
                   (''DEFAULT'', JStr ''#2563eb''),
                   (''dark'', JStr ''#1e40af'')]),
                (''light-bg'', JStr ''#ffffff''),
                (''light-text'', JStr ''#1f2937''),
                (''dark-bg'', JStr ''#111827''),
                (''dark-text'', JStr ''#f9fafb'')])])]),
       (''plugins'', JArr [])]"

subsection \<open>Loading the module\<close>

text \<open>
  Node hands the module body a \<^verbatim>\<open>module\<close> object; the body's only effect is the
  assignment to its \<^verbatim>\<open>exports\<close> field.  The record is extensible: whatever else the
  module object carries is the \<open>more\<close> part, which the assignment does not touch.
\<close>

record module =
  exports :: jsval

definition load_module :: "'a module_scheme \<Rightarrow> 'a module_scheme" where
  "load_module m = m\<lparr>exports := module_exports\<rparr>"

subsection \<open>Reading objects\<close>

text \<open>
  \<open>own_prop v k\<close> is the value of the own property \<open>k\<close> of a plain object, and
  \<open>None\<close> when the object has no own property of that name (properties inherited from
  a prototype, and the indices of an array, are not modelled); \<open>get_path\<close> chains such
  lookups.  All properties of the literal are data properties (it declares no getter),
  so a read returns the stored value and has no effect: \<open>read\<close> makes that explicit
  by returning the module it was given.
\<close>

fun prop_names :: "jsval \<Rightarrow> string list" where
  "prop_names (JObj kvs) = map fst kvs"
| "prop_names v = []"

fun own_prop :: "jsval \<Rightarrow> string \<Rightarrow> jsval option" where
  "own_prop (JObj kvs) k = map_of kvs k"
| "own_prop v k = None"

fun get_path :: "jsval \<Rightarrow> string list \<Rightarrow> jsval option" where
  "get_path v [] = Some v"
| "get_path v (k # ks) =
     (case own_prop v k of None \<Rightarrow> None | Some w \<Rightarrow> get_path w ks)"

definition read :: "'a module_scheme \<Rightarrow> string list \<Rightarrow> jsval option \<times> 'a module_scheme" where
  "read m p = (get_path (exports m) p, m)"

definition theme_colors :: "jsval option" where
  "theme_colors = get_path module_exports [''theme'', ''extend'', ''colors'']"

subsection \<open>Shapes of values\<close>

fun is_string :: "jsval \<Rightarrow> bool" where
  "is_string (JStr s) = True"
| "is_string v = False"

fun is_mode_flag :: "jsval \<Rightarrow> bool" where
  "is_mode_flag (JBool b) = True"
| "is_mode_flag (JStr s) = True"
| "is_mode_flag v = False"

fun is_shade_map :: "jsval \<Rightarrow> bool" where
  "is_shade_map (JObj kvs) = list_all (\<lambda>kv. is_string (snd kv)) kvs"
| "is_shade_map v = False"

text \<open>Data made of strings, arrays and objects only: no boolean, no function.\<close>

fun only_strings :: "jsval \<Rightarrow> bool" where
  "only_strings (JStr s) = True"
| "only_strings (JArr xs) = list_all only_strings xs"
| "only_strings (JObj kvs) = list_all (\<lambda>kv. only_strings (snd kv)) kvs"
| "only_strings (JBool b) = False"
| "only_strings (JFun f) = False"

text \<open>Objects whose property names are pairwise different, at every depth.\<close>

fun distinct_names :: "jsval \<Rightarrow> bool" where
  "distinct_names (JArr xs) = list_all distinct_names xs"
| "distinct_names (JObj kvs) =
     (distinct (map fst kvs) \<and> list_all (\<lambda>kv. distinct_names (snd kv)) kvs)"
| "distinct_names v = True"

text \<open>The values at the leaves of nested objects and arrays, left to right.\<close>

fun leaves :: "jsval \<Rightarrow> jsval list" where
  "leaves (JArr xs) = concat (map leaves xs)"
| "leaves (JObj kvs) = concat (map (\<lambda>kv. leaves (snd kv)) kvs)"
| "leaves v = [v]"

text \<open>An array of strings, read as the list of those strings.\<close>

fun str_list :: "jsval \<Rightarrow> string list option" where
  "str_list (JArr []) = Some []"
| "str_list (JArr (JStr s # xs)) = map_option ((#) s) (str_list (JArr xs))"
| "str_list v = None"

definition content_globs :: "string list option" where
  "content_globs =
     (case own_prop module_exports ''content'' of None \<Rightarrow> None | Some v \<Rightarrow> str_list v)"

fun entries :: "jsval \<Rightarrow> (string \<times> jsval) list" where
  "entries (JObj kvs) = kvs"
| "entries v = []"

subsection \<open>Colour literals\<close>

text \<open>
  A colour literal in the sense of the specification: the character \<open>#\<close> followed by
  exactly six hexadecimal digits.
\<close>

definition is_hex_digit :: "char \<Rightarrow> bool" where
  "is_hex_digit c = (c \<in> set ''0123456789abcdefABCDEF'')"

fun is_hex_color :: "string \<Rightarrow> bool" where
  "is_hex_color [] = False"
| "is_hex_color (c # ds) = (c = CHR ''#'' \<and> length ds = 6 \<and> list_all is_hex_digit ds)"

fun is_color_literal :: "jsval \<Rightarrow> bool" where
  "is_color_literal (JStr s) = is_hex_color s"
| "is_color_literal v = False"

section \<open>Reading the content list and the theme\<close>

text \<open>
  The build tool that consumes the configuration is not part of the repository, and
  nothing below models what it does.  The predicates of this section speak about the
  data the module exports: how a pattern of the content list is written, and what the
  theme object gives directly and what it gives under \<open>extend\<close>.
\<close>

subsection \<open>Glob patterns\<close>

text \<open>
  Well-formedness of a pattern: it is not empty, every bracket, brace and parenthesis
  that opens is closed in the right order, no closer stands without its opener, and the
  pattern does not end in the escape character.  A character after the escape character
  is taken as it is.  \<open>delimiters_ok esc st p\<close> scans \<open>p\<close> with the closers still
  expected in \<open>st\<close>; \<open>esc\<close> says that the character before was the escape character.
\<close>

definition backslash :: char where
  "backslash = CHR 0x5C"

fun closer :: "char \<Rightarrow> char option" where
  "closer c =
     (if c = CHR ''['' then Some CHR '']''
      else if c = CHR ''{'' then Some CHR ''}''
      else if c = CHR ''('' then Some CHR '')''
      else None)"

fun delimiters_ok :: "bool \<Rightarrow> string \<Rightarrow> string \<Rightarrow> bool" where
  "delimiters_ok esc st [] = (\<not> esc \<and> st = [])"
| "delimiters_ok esc st (c # cs) =
     (if esc then delimiters_ok False st cs
      else if c = backslash then delimiters_ok True st cs
      else (case closer c of
              Some d \<Rightarrow> delimiters_ok False (d # st) cs
            | None \<Rightarrow>
                if c \<in> set '']})''
                then (case st of
                        [] \<Rightarrow> False
                      | d # st' \<Rightarrow> d = c \<and> delimiters_ok False st' cs)
                else delimiters_ok False st cs))"

definition well_formed_glob :: "string \<Rightarrow> bool" where
  "well_formed_glob p = (p \<noteq> [] \<and> delimiters_ok False [] p)"

text \<open>A pattern written without any delimiter or escape character.\<close>

definition undelimited :: "string \<Rightarrow> bool" where
  "undelimited p = list_all (\<lambda>c. c \<notin> set ''[]{}()'' \<and> c \<noteq> backslash) p"






subsection \<open>What the theme gives\<close>

text \<open>
  A theme object names scales (\<open>colors\<close>, \<open>spacing\<close>, ...).  A scale written directly
  under \<open>theme\<close> is given in place of the consumer's own scale of that name; a scale
  written under \<open>theme.extend\<close> is given in addition to it.  \<open>overrides\<close> lists the
  former and \<open>extensions\<close> the latter.
\<close>

definition overrides :: "jsval \<Rightarrow> (string \<times> jsval) list" where
  "overrides theme = filter (\<lambda>kv. fst kv \<noteq> ''extend'') (entries theme)"

definition extensions :: "jsval \<Rightarrow> (string \<times> jsval) list" where
  "extensions theme = (case own_prop theme ''extend'' of None \<Rightarrow> [] | Some e \<Rightarrow> entries e)"

section \<open>Properties of the exported configuration\<close>

subsection \<open>Evaluating the literal\<close>

lemma theme_colors_value:
  "theme_colors =
     Some (JObj
       [(''custom-blue'',
         JObj
          [(''light'', JStr ''#3b82f6''),
           (''DEFAULT'', JStr ''#2563eb''),
           (''dark'', JStr ''#1e40af'')]),
        (''light-bg'', JStr ''#ffffff''),
        (''light-text'', JStr ''#1f2937''),
        (''dark-bg'', JStr ''#111827''),
        (''dark-text'', JStr ''#f9fafb'')])"
  by (simp add: theme_colors_def module_exports_def)

lemma theme_value:
  "own_prop module_exports ''theme'' =
     Some (JObj
       [(''extend'',
         JObj
          [(''colors'',
            JObj
             [(''custom-blue'',
               JObj
                [(''light'', JStr ''#3b82f6''),
                 (''DEFAULT'', JStr ''#2563eb''),
                 (''dark'', JStr ''#1e40af'')]),
              (''light-bg'', JStr ''#ffffff''),
              (''light-text'', JStr ''#1f2937''),
              (''dark-bg'', JStr ''#111827''),
              (''dark-text'', JStr ''#f9fafb'')])])])"
  by (simp add: module_exports_def)

lemma module_exports_distinct_names:
  "distinct_names module_exports"
  by (simp add: module_exports_def)

lemma content_globs_value:
  "content_globs = Some [''./templates/**/*.html'']"
  by (simp add: content_globs_def module_exports_def)

subsection \<open>Top-level fields\<close>

text \<open>
  C3: the exported object has exactly the four top-level keys \<open>darkMode\<close>, \<open>content\<close>,
  \<open>theme\<close> and \<open>plugins\<close>, each once; reading any other name gives \<^verbatim>\<open>undefined\<close>.
\<close>

theorem top_level_keys:
  "prop_names module_exports = [''darkMode'', ''content'', ''theme'', ''plugins''] \<and>
   distinct (prop_names module_exports) \<and>
   (\<forall>k. (own_prop module_exports k = None) =
        (k \<notin> {''darkMode'', ''content'', ''theme'', ''plugins''}))"
  by (simp add: module_exports_def)

text \<open>
  C6: the dark-mode field is a mode flag (a boolean or a string), and here it is the
  string \<open>class\<close>.
\<close>

theorem dark_mode_is_class:
  "\<exists>v. own_prop module_exports ''darkMode'' = Some v \<and> is_mode_flag v \<and> v = JStr ''class''"
  by (simp add: module_exports_def)

text \<open>C8: the plugins field is the empty list, so no plugin is registered.\<close>

theorem plugins_empty:
  "own_prop module_exports ''plugins'' = Some (JArr [])"
  by (simp add: module_exports_def)

subsection \<open>The colour extension\<close>

text \<open>
  C10: \<open>custom-blue\<close> is an object with exactly the shade keys \<open>light\<close>, \<open>DEFAULT\<close>
  and \<open>dark\<close>, in this order; the default shade is spelled in upper case, and there is
  no key \<open>default\<close>.  The three shade values are \<open>#3b82f6\<close>, \<open>#2563eb\<close> and
  \<open>#1e40af\<close>, pairwise different.
\<close>

theorem custom_blue_shades:
  "\<exists>shades.
      get_path module_exports [''theme'', ''extend'', ''colors'', ''custom-blue'']
        = Some (JObj shades) \<and>
      map fst shades = [''light'', ''DEFAULT'', ''dark''] \<and>
      map_of shades ''default'' = None \<and>
      map snd shades = [JStr ''#3b82f6'', JStr ''#2563eb'', JStr ''#1e40af''] \<and>
      distinct (map snd shades)"
  by (simp add: module_exports_def)

text \<open>
  C2: every colour name maps to a string or to an object of shades whose values are
  strings, and to nothing else: \<open>custom-blue\<close> maps to an object of shades, and
  \<open>light-bg\<close>, \<open>light-text\<close>, \<open>dark-bg\<close> and \<open>dark-text\<close> each map to a string.
\<close>

theorem color_shapes:
  "\<exists>cols shades.
      theme_colors = Some (JObj cols) \<and>
      map fst cols =
        [''custom-blue'', ''light-bg'', ''light-text'', ''dark-bg'', ''dark-text''] \<and>
      list_all (\<lambda>kv. is_string (snd kv) \<or> is_shade_map (snd kv)) cols \<and>
      map_of cols ''custom-blue'' = Some (JObj shades) \<and>
      list_all (\<lambda>kv. is_string (snd kv)) shades \<and>
      list_all (\<lambda>k. \<exists>s. map_of cols k = Some (JStr s))
        [''light-bg'', ''light-text'', ''dark-bg'', ''dark-text'']"
  by (simp add: theme_colors_value)

text \<open>
  C1: every colour value of the theme extension, that is every leaf of the \<open>colors\<close>
  object (the three shades of \<open>custom-blue\<close> and the values of \<open>light-bg\<close>,
  \<open>light-text\<close>, \<open>dark-bg\<close> and \<open>dark-text\<close>), is a string made of \<open>#\<close> and exactly
  six hexadecimal digits.
\<close>

theorem color_values_are_hex_literals:
  "\<exists>c. theme_colors = Some c \<and>
       leaves c =
         [JStr ''#3b82f6'', JStr ''#2563eb'', JStr ''#1e40af'', JStr ''#ffffff'',
          JStr ''#1f2937'', JStr ''#111827'', JStr ''#f9fafb''] \<and>
       list_all is_color_literal (leaves c) \<and>
       list_all (\<lambda>p. \<exists>s. get_path c p = Some (JStr s) \<and> is_hex_color s)
         [[''custom-blue'', ''light''], [''custom-blue'', ''DEFAULT''],
          [''custom-blue'', ''dark''], [''light-bg''], [''light-text''],
          [''dark-bg''], [''dark-text'']]"
  by (simp add: theme_colors_value is_hex_digit_def)

subsection \<open>Constant data\<close>

text \<open>
  C7: the module is constant data.  The exported value is built from strings, arrays and
  objects only (no function, at any depth; every leaf is a string), with no property
  name written twice in one object.  Loading the module sets \<open>exports\<close> to that value
  whatever the module object held before, so two loads export equal values; loading
  touches nothing but \<open>exports\<close> and loading twice is loading once.  A read returns the
  value found in the literal and leaves the module as it was, so a second read gives
  what the first gave.
\<close>

theorem config_is_constant_data:
  "only_strings module_exports \<and>
   list_all is_string (leaves module_exports) \<and>
   distinct_names module_exports \<and>
   exports (load_module m) = module_exports \<and>
   exports (load_module m) = exports (load_module m') \<and>
   more (load_module m) = more m \<and>
   load_module (load_module m) = load_module m \<and>
   snd (read (load_module m) p) = load_module m \<and>
   fst (read (snd (read (load_module m) p)) p) = fst (read (load_module m) p) \<and>
   fst (read (load_module m) p) = get_path module_exports p"
  by (simp add: load_module_def read_def module_exports_def)

subsection \<open>The content list\<close>

text \<open>
  C4: every pattern of the content list is a well-formed glob pattern.  The list has one
  pattern, \<open>./templates/**/*.html\<close>; it is well formed, and it is written without any
  bracket, brace, parenthesis or escape character.
\<close>

theorem content_globs_well_formed:
  "\<exists>ps. content_globs = Some ps \<and>
        list_all well_formed_glob ps \<and>
        list_all undelimited ps \<and>
        ps = [''./templates/**/*.html''] \<and>
        well_formed_glob ''./templates/**/*.html''"
  by (simp add: content_globs_value well_formed_glob_def undelimited_def backslash_def)


subsection \<open>The theme only extends\<close>

text \<open>
  The module's side of the theme: the theme object has the one key \<open>extend\<close>, so it
  gives no scale directly under \<open>theme\<close>, and all it gives is the extension, which has
  the one scale \<open>colors\<close> with exactly the five declared colour tokens.  What becomes
  of the consumer's default theme when the extension is merged into it is decided by the
  consumer, and is not stated here.
\<close>

lemma theme_structure:
  "\<exists>th. own_prop module_exports ''theme'' = Some th \<and>
        prop_names th = [''extend''] \<and>
        overrides th = [] \<and>
        map fst (extensions th) = [''colors''] \<and>
        extensions th =
          [(''colors'',
            JObj
             [(''custom-blue'',
               JObj
                [(''light'', JStr ''#3b82f6''),
                 (''DEFAULT'', JStr ''#2563eb''),
                 (''dark'', JStr ''#1e40af'')]),
              (''light-bg'', JStr ''#ffffff''),
              (''light-text'', JStr ''#1f2937''),
              (''dark-bg'', JStr ''#111827''),
              (''dark-text'', JStr ''#f9fafb'')])]"
  by (simp add: theme_value overrides_def extensions_def)

end
